theory Spec2Isabelle
  imports Main "HOL-Library.Word"
begin

unbundle bit_operations_syntax

section \<open>The terminal session guard of sh-interrupt/catcher.c\<close>

text \<open>
  The program \<^verbatim>\<open>src/sh-interrupt/catcher.c\<close> opens the controlling terminal, switches it
  to non-canonical mode without echo, installs four signal handlers and then reads the
  terminal one byte at a time.  Every way out of the program goes through
  \<^verbatim>\<open>exit_handler\<close>, which calls \<^verbatim>\<open>cleanup\<close> and then \<^verbatim>\<open>exit(0)\<close>.

  The embedding is a state-passing one.  The state holds the program's global variables,
  the signal dispositions installed so far, whether the process is still running, and the
  list of library and system calls made so far (oldest first).  What the operating system
  answers to each call is a parameter of the model.
\<close>

subsection \<open>Constants of the C library headers\<close>

text \<open>
  The four signals the program installs a handler for.
\<close>

datatype signal = SIGINT | SIGQUIT | SIGHUP | SIGTERM

text \<open>
  The values of \<^verbatim>\<open>ICANON\<close>, \<^verbatim>\<open>ECHO\<close>, \<^verbatim>\<open>VQUIT\<close>, \<^verbatim>\<open>NCCS\<close>, \<^verbatim>\<open>EINTR\<close> and of the signal
  numbers come from \<^verbatim>\<open>termios.h\<close>, \<^verbatim>\<open>errno.h\<close> and \<^verbatim>\<open>signal.h\<close>, which are not part of
  the repository; whether plain \<^verbatim>\<open>char\<close> is signed is the compiler's choice.  They are
  parameters of every definition below.
\<close>

record platform =
  ICANON :: "32 word"
  ECHO :: "32 word"
  VQUIT :: nat
  NCCS :: nat
  EINTR :: int
  signo :: "signal \<Rightarrow> int"
  char_signed :: bool

text \<open>
  \<^verbatim>\<open>struct termios\<close> with the members POSIX requires; \<^verbatim>\<open>tcflag_t\<close> is an unsigned
  32-bit integer and \<^verbatim>\<open>cc_t\<close> an unsigned char.
\<close>

record termios =
  c_iflag :: "32 word"
  c_oflag :: "32 word"
  c_cflag :: "32 word"
  c_lflag :: "32 word"
  c_cc :: "8 word list"

text \<open>
  Lines 15-16: \<^verbatim>\<open>#define CTRL(x) (x&037)\<close> and \<^verbatim>\<open>#define CEOF CTRL('d')\<close>; octal 037 is 31.
  Character constants have type \<^verbatim>\<open>int\<close> in C.
\<close>

definition CTRL :: "int \<Rightarrow> int" where
  "CTRL x = x AND 31"

definition CEOF :: int where
  "CEOF = CTRL (of_char CHR ''d'')"

subsection \<open>Calls, operating system answers and the program state\<close>

datatype handler = Handler2 | Handler3 | Exit_handler

text \<open>
  One constructor for each library or system call of the program, with the arguments the
  program passes.  \<^verbatim>\<open>open\<close> is always called with \<^verbatim>\<open>O_RDONLY\<close>, \<^verbatim>\<open>tcsetattr\<close> with
  \<^verbatim>\<open>TCSANOW\<close> and \<^verbatim>\<open>read\<close> with a count of 1.  \<^verbatim>\<open>Printf\<close> keeps the format string and
  the integer arguments apart.
\<close>

datatype event =
    Open string
  | Tcgetpgrp int
  | Tcsetpgrp int int
  | Tcgetattr int
  | Tcsetattr int termios
  | Close int
  | Read int
  | Write int string
  | Printf string "int list"
  | Perror string
  | Sigaction signal handler
  | Exit int

text \<open>
  What the operating system returns at each call site whose result the program looks at.
  \<^verbatim>\<open>tcgetattr_out\<close> is what a successful \<^verbatim>\<open>tcgetattr\<close> stores through its pointer argument:
  the attributes of the device at that moment.
\<close>

record os =
  open_ret :: int
  tcgetpgrp_ret :: int
  tcsetpgrp_ret :: int
  tcgetattr_ret :: int
  tcgetattr_out :: termios
  tcsetattr_ret :: int
  restore_ret :: int

datatype status = Running | Exited int | Killed signal

record state =
  ttystate :: termios
  oldttystate :: termios
  cleanupP :: int
  global_fd :: int
  handlers :: "signal \<Rightarrow> handler option"
  status :: status
  trace :: "event list"

text \<open>
  Lines 21-29: objects of static storage duration start out as zero; no handler is
  installed when the program starts.
\<close>

definition zero_termios :: "platform \<Rightarrow> termios" where
  "zero_termios P =
     \<lparr>c_iflag = 0, c_oflag = 0, c_cflag = 0, c_lflag = 0, c_cc = replicate (NCCS P) 0\<rparr>"

definition init :: "platform \<Rightarrow> state" where
  "init P =
     \<lparr>ttystate = zero_termios P, oldttystate = zero_termios P, cleanupP = 0, global_fd = 0,
      handlers = (\<lambda>_. None), status = Running, trace = []\<rparr>"

definition sys :: "event \<Rightarrow> state \<Rightarrow> state" where
  "sys e s = s\<lparr>trace := trace s @ [e]\<rparr>"

definition printf :: "string \<Rightarrow> int list \<Rightarrow> state \<Rightarrow> state" where
  "printf fmt args s = sys (Printf fmt args) s"

definition perror :: "string \<Rightarrow> state \<Rightarrow> state" where
  "perror msg s = sys (Perror msg) s"

text \<open>\<^verbatim>\<open>exit\<close> ends the process: nothing of the program runs after it.\<close>

definition sys_exit :: "int \<Rightarrow> state \<Rightarrow> state" where
  "sys_exit code s = (sys (Exit code) s)\<lparr>status := Exited code\<rparr>"

subsection \<open>The handlers and cleanup (lines 35-71)\<close>

definition handler2 :: "int \<Rightarrow> state \<Rightarrow> state" where
  "handler2 sig s = sys (Write 1 ''Async action on sigint (2)\<newline>'') s"

definition handler3 :: "int \<Rightarrow> state \<Rightarrow> state" where
  "handler3 sig s = sys (Write 1 ''Async action on sigquit (3)\<newline>'') s"

definition cleanup :: "os \<Rightarrow> state \<Rightarrow> state" where
  "cleanup E s =
     (let s1 =
        (if cleanupP s \<noteq> 0 then
           (let s2 = printf ''Resettung terminal\<newline>'' [] s;
                s3 = sys (Tcsetattr (global_fd s2) (oldttystate s2)) s2
            in if restore_ret E < 0 then perror ''ioctl reset /dev/tty'' s3 else s3)
         else s)
      in sys (Close (global_fd s1)) s1)"

definition exit_handler :: "os \<Rightarrow> int \<Rightarrow> state \<Rightarrow> state" where
  "exit_handler E sig s =
     (let s1 = cleanup E s;
          s2 = (if sig \<noteq> 0 then printf ''Exiting on signal %d\<newline>'' [sig] s1 else s1)
      in sys_exit 0 s2)"

subsection \<open>Startup (lines 82-112 of main)\<close>

text \<open>
  Lines 104-107: the working mode is the saved mode with \<^verbatim>\<open>ICANON\<close> and \<^verbatim>\<open>ECHO\<close> cleared
  in \<^verbatim>\<open>c_lflag\<close> and \<^verbatim>\<open>c_cc[VQUIT]\<close> set to \<^verbatim>\<open>CTRL('g')\<close>, converted to \<^verbatim>\<open>cc_t\<close>.
\<close>

definition raw_mode :: "platform \<Rightarrow> termios \<Rightarrow> termios" where
  "raw_mode P old =
     (let t1 = old;
          t2 = t1\<lparr>c_lflag := c_lflag t1 AND NOT (ICANON P)\<rparr>;
          t3 = t2\<lparr>c_lflag := c_lflag t2 AND NOT (ECHO P)\<rparr>
      in t3\<lparr>c_cc := (c_cc t3)[VQUIT P := word_of_int (CTRL (of_char CHR ''g''))]\<rparr>)"

definition startup :: "platform \<Rightarrow> os \<Rightarrow> state \<Rightarrow> state" where
  "startup P E s =
     (let s1 = (sys (Open ''/dev/tty'') s)\<lparr>global_fd := open_ret E\<rparr> in
      if global_fd s1 < 1 then exit_handler E 0 (perror ''open /dev/tty'' s1)
      else
        let s2 = sys (Tcgetpgrp (global_fd s1)) s1;
            pgrp = tcgetpgrp_ret E
        in
        if pgrp < 0 then exit_handler E 0 (perror ''Can't get pgrp\<newline>'' s2)
        else
          let s3 = sys (Tcsetpgrp (global_fd s2) pgrp) s2 in
          if tcsetpgrp_ret E < 0 then exit_handler E 0 (perror ''Can't set pgrp\<newline>'' s3)
          else
            let s4 = sys (Tcgetattr (global_fd s3)) s3 in
            if tcgetattr_ret E < 0 then exit_handler E 0 (perror ''ioctl1 /dev/tty'' s4)
            else
              let s5 = s4\<lparr>oldttystate := tcgetattr_out E\<rparr>;
                  s6 = s5\<lparr>ttystate := raw_mode P (oldttystate s5)\<rparr>;
                  s7 = sys (Tcsetattr (global_fd s6) (ttystate s6)) s6
              in
              if tcsetattr_ret E < 0 then exit_handler E 0 (perror ''ioctl2 /dev/tty'' s7)
              else s7\<lparr>cleanupP := 1\<rparr>)"

text \<open>
  Startup gets through when none of its five tests sends it to \<^verbatim>\<open>exit_handler\<close>: the
  descriptor is at least 1 and the other four calls return a non-negative value.
\<close>

definition startup_succeeds :: "os \<Rightarrow> bool" where
  "startup_succeeds E =
     (1 \<le> open_ret E \<and> 0 \<le> tcgetpgrp_ret E \<and> 0 \<le> tcsetpgrp_ret E \<and>
      0 \<le> tcgetattr_ret E \<and> 0 \<le> tcsetattr_ret E)"

subsection \<open>Installing the handlers (lines 114-130 of main)\<close>

text \<open>
  \<^verbatim>\<open>sigaction\<close> with an empty mask and no flags; the program ignores its result.  From
  then on the signal's disposition is the handler.
\<close>

definition sigaction :: "signal \<Rightarrow> handler \<Rightarrow> state \<Rightarrow> state" where
  "sigaction sig h s = (sys (Sigaction sig h) s)\<lparr>handlers := (handlers s)(sig \<mapsto> h)\<rparr>"

definition install_handlers :: "state \<Rightarrow> state" where
  "install_handlers s =
     (let s1 = sigaction SIGINT Handler2 s;
          s2 = sigaction SIGQUIT Handler3 s1;
          s3 = sigaction SIGHUP Exit_handler s2;
          s4 = sigaction SIGTERM Exit_handler s3
      in printf ''Use C-c and C-g for async actions, end with C-d\<newline>'' [] s4)"

subsection \<open>Signal delivery\<close>

text \<open>
  A signal is delivered by running the handler installed for it, with the signal's number
  as argument.  With no handler installed, the default action of each of the four signals
  ends the process at once.
\<close>

definition deliver :: "platform \<Rightarrow> os \<Rightarrow> signal \<Rightarrow> state \<Rightarrow> state" where
  "deliver P E sig s =
     (case handlers s sig of
        None \<Rightarrow> s\<lparr>status := Killed sig\<rparr>
      | Some Handler2 \<Rightarrow> handler2 (signo P sig) s
      | Some Handler3 \<Rightarrow> handler3 (signo P sig) s
      | Some Exit_handler \<Rightarrow> exit_handler E (signo P sig) s)"

subsection \<open>The read loop (lines 131-148 of main)\<close>

text \<open>
  What one call \<^verbatim>\<open>read(_global_fd, c, 1)\<close> can return: -1 with an error number, 0, or 1
  with the byte stored in \<^verbatim>\<open>c[0]\<close>.
\<close>

datatype read_result = Read_error int | Read_zero | Read_byte "8 word"

text \<open>
  What the terminal and the outside world do while the program sits in \<^verbatim>\<open>read\<close>: the
  call returns, or a signal arrives.  Since the handlers are installed without
  \<^verbatim>\<open>SA_RESTART\<close>, a \<^verbatim>\<open>read\<close> interrupted by a handler that returns fails with
  \<^verbatim>\<open>EINTR\<close>.
\<close>

datatype input = Returns read_result | Signal signal

text \<open>Integer promotion of a plain \<^verbatim>\<open>char\<close>.\<close>

definition char_to_int :: "platform \<Rightarrow> 8 word \<Rightarrow> int" where
  "char_to_int P b = (if char_signed P then sint b else uint b)"

text \<open>
  The body of the \<^verbatim>\<open>switch\<close>.  The loop goes on exactly when the body leaves the process
  running.
\<close>

fun loop_body :: "platform \<Rightarrow> os \<Rightarrow> read_result \<Rightarrow> state \<Rightarrow> state" where
  "loop_body P E (Read_error errno) s =
     (if errno = EINTR P then s
      else exit_handler E 0 (perror ''stdin read'' s))"
| "loop_body P E Read_zero s =
     exit_handler E 0
       (printf ''Exiting on stdin EOF (should happen only in cannon mode\<newline>'' [] s)"
| "loop_body P E (Read_byte b) s =
     (if char_to_int P b = CEOF then
        exit_handler E 0
          (printf ''Exiting on stdin EOF (hopefully only in noncannon mode)\<newline>'' [] s)
      else printf ''You typed: '%c' (0x%X)\<newline>'' [char_to_int P b, char_to_int P b] s)"

text \<open>
  One iteration: the program calls \<^verbatim>\<open>read\<close>; then either the call returns, or a signal is
  delivered first and, if its handler returns, the call fails with \<^verbatim>\<open>EINTR\<close>.
\<close>

definition iteration :: "platform \<Rightarrow> os \<Rightarrow> input \<Rightarrow> state \<Rightarrow> state" where
  "iteration P E i s =
     (let s1 = sys (Read (global_fd s)) s in
      case i of
        Returns r \<Rightarrow> loop_body P E r s1
      | Signal sig \<Rightarrow>
          (let s2 = deliver P E sig s1 in
           if status s2 = Running then loop_body P E (Read_error (EINTR P)) s2 else s2))"

text \<open>
  \<^verbatim>\<open>while (1)\<close>, run on a finite list of inputs.  When the list is used up the process is
  still \<^verbatim>\<open>Running\<close>: it is blocked in \<^verbatim>\<open>read\<close>.
\<close>

fun read_loop :: "platform \<Rightarrow> os \<Rightarrow> input list \<Rightarrow> state \<Rightarrow> state" where
  "read_loop P E [] s = s"
| "read_loop P E (i # rest) s =
     (let s1 = iteration P E i s in
      if status s1 = Running then read_loop P E rest s1 else s1)"

subsection \<open>main (lines 73-151)\<close>

definition main :: "platform \<Rightarrow> os \<Rightarrow> input list \<Rightarrow> state" where
  "main P E feed =
     (let s = startup P E (init P) in
      if status s = Running then read_loop P E feed (install_handlers s) else s)"

subsection \<open>Classifying calls\<close>

fun is_tcsetattr :: "event \<Rightarrow> bool" where
  "is_tcsetattr (Tcsetattr fd t) = True"
| "is_tcsetattr e = False"

fun is_close :: "event \<Rightarrow> bool" where
  "is_close (Close fd) = True"
| "is_close e = False"

fun is_exit :: "event \<Rightarrow> bool" where
  "is_exit (Exit code) = True"
| "is_exit e = False"

text \<open>Output through the buffered streams of \<^verbatim>\<open>stdio.h\<close>.\<close>

fun is_stdio :: "event \<Rightarrow> bool" where
  "is_stdio (Printf fmt args) = True"
| "is_stdio (Perror msg) = True"
| "is_stdio e = False"

fun restore_or_close :: "event \<Rightarrow> bool" where
  "restore_or_close e = (is_tcsetattr e \<or> is_close e)"

text \<open>The calls a function adds to the trace of the state it starts from.\<close>

definition new_calls :: "state \<Rightarrow> state \<Rightarrow> event list" where
  "new_calls s s' = drop (length (trace s)) (trace s')"

text \<open>
  The calls of \<^verbatim>\<open>cleanup\<close> and of \<^verbatim>\<open>exit_handler\<close> written out as lists, to state what
  the two functions do; \<open>cleanup_eq\<close> and \<open>exit_handler_eq\<close> below prove that these are
  the calls the functions make.
\<close>

definition cleanup_calls :: "os \<Rightarrow> state \<Rightarrow> event list" where
  "cleanup_calls E s =
     (if cleanupP s \<noteq> 0 then
        [Printf ''Resettung terminal\<newline>'' [], Tcsetattr (global_fd s) (oldttystate s)] @
        (if restore_ret E < 0 then [Perror ''ioctl reset /dev/tty''] else [])
      else []) @
     [Close (global_fd s)]"

definition exit_calls :: "os \<Rightarrow> int \<Rightarrow> state \<Rightarrow> event list" where
  "exit_calls E sig s =
     cleanup_calls E s @
     (if sig \<noteq> 0 then [Printf ''Exiting on signal %d\<newline>'' [sig]] else []) @
     [Exit 0]"

subsection \<open>A concrete platform and terminal\<close>

text \<open>
  The constants of Linux on x86-64 (\<^verbatim>\<open>ICANON\<close> is octal 2, \<^verbatim>\<open>ECHO\<close> octal 10,
  \<^verbatim>\<open>VQUIT\<close> 1, \<^verbatim>\<open>NCCS\<close> 32, \<^verbatim>\<open>EINTR\<close> 4, plain \<^verbatim>\<open>char\<close> signed), and a terminal in
  the usual canonical mode with echo, opened as descriptor 3.  They serve as concrete
  inputs only.
\<close>

definition linux :: platform where
  "linux =
     \<lparr>ICANON = 2, ECHO = 8, VQUIT = 1, NCCS = 32, EINTR = 4,
      signo = (\<lambda>sig. case sig of SIGHUP \<Rightarrow> 1 | SIGINT \<Rightarrow> 2 | SIGQUIT \<Rightarrow> 3 | SIGTERM \<Rightarrow> 15),
      char_signed = True\<rparr>"

definition cooked :: termios where
  "cooked =
     \<lparr>c_iflag = 17664, c_oflag = 5, c_cflag = 191, c_lflag = 35387,
      c_cc = [3, 28, 127, 21, 4, 0, 1, 0, 17, 19, 26, 0, 18, 15, 23, 22] @ replicate 16 0\<rparr>"

definition os_ok :: os where
  "os_ok =
     \<lparr>open_ret = 3, tcgetpgrp_ret = 100, tcsetpgrp_ret = 0, tcgetattr_ret = 0,
      tcgetattr_out = cooked, tcsetattr_ret = 0, restore_ret = 0\<rparr>"

text \<open>The state in which the program, started on that terminal, waits in its first \<^verbatim>\<open>read\<close>.\<close>

definition armed :: state where
  "armed = main linux os_ok []"

section \<open>Basic facts\<close>

lemmas prim_defs = sys_def printf_def perror_def sys_exit_def

lemma CEOF_val: "CEOF = 4"
  by (simp add: CEOF_def CTRL_def)

lemma char_to_int_small: "char_to_int P 97 = 97" "char_to_int P 98 = 98" "char_to_int P 4 = 4"
  by (simp_all add: char_to_int_def)

lemma char_to_int_CEOF: "char_to_int P (word_of_int CEOF) = CEOF"
  by (simp add: CEOF_val char_to_int_def)

subsection \<open>What cleanup, exit_handler and signal delivery add to the trace\<close>

lemma cleanup_eq: "cleanup E s = s\<lparr>trace := trace s @ cleanup_calls E s\<rparr>"
  by (simp add: cleanup_def cleanup_calls_def prim_defs Let_def)

lemma exit_handler_eq:
  "exit_handler E sig s = s\<lparr>status := Exited 0, trace := trace s @ exit_calls E sig s\<rparr>"
  by (simp add: exit_handler_def exit_calls_def cleanup_eq prim_defs Let_def)

lemma cleanup_calls_cong [simp]:
  "cleanup_calls E (s\<lparr>trace := t\<rparr>) = cleanup_calls E s"
  "cleanup_calls E (s\<lparr>status := st\<rparr>) = cleanup_calls E s"
  by (simp_all add: cleanup_calls_def)

lemma exit_calls_cong [simp]:
  "exit_calls E sig (s\<lparr>trace := t\<rparr>) = exit_calls E sig s"
  "exit_calls E sig (s\<lparr>status := st\<rparr>) = exit_calls E sig s"
  by (simp_all add: exit_calls_def)

lemma deliver_eq:
  "deliver P E sig s =
     (case handlers s sig of
        None \<Rightarrow> s\<lparr>status := Killed sig\<rparr>
      | Some Handler2 \<Rightarrow> s\<lparr>trace := trace s @ [Write 1 ''Async action on sigint (2)\<newline>'']\<rparr>
      | Some Handler3 \<Rightarrow> s\<lparr>trace := trace s @ [Write 1 ''Async action on sigquit (3)\<newline>'']\<rparr>
      | Some Exit_handler \<Rightarrow>
          s\<lparr>status := Exited 0, trace := trace s @ exit_calls E (signo P sig) s\<rparr>)"
  by (simp add: deliver_def handler2_def handler3_def exit_handler_eq sys_def
      split: option.split handler.split)

lemma new_calls_append [simp]: "new_calls s (s\<lparr>trace := trace s @ ev\<rparr>) = ev"
  by (simp add: new_calls_def)

lemma new_calls_append_status [simp]:
  "new_calls s (s\<lparr>status := st, trace := trace s @ ev\<rparr>) = ev"
  by (simp add: new_calls_def)

subsection \<open>Startup and the handlers\<close>

lemma raw_mode_fields:
  "c_iflag (raw_mode P M) = c_iflag M"
  "c_oflag (raw_mode P M) = c_oflag M"
  "c_cflag (raw_mode P M) = c_cflag M"
  "c_lflag (raw_mode P M) = (c_lflag M AND NOT (ICANON P)) AND NOT (ECHO P)"
  "c_cc (raw_mode P M) = (c_cc M)[VQUIT P := 7]"
  by (simp_all add: raw_mode_def Let_def CTRL_def)

lemma startup_succeeded:
  "startup_succeeds E \<Longrightarrow>
   startup P E s =
     s\<lparr>ttystate := raw_mode P (tcgetattr_out E), oldttystate := tcgetattr_out E,
       cleanupP := 1, global_fd := open_ret E,
       trace := trace s @
         [Open ''/dev/tty'', Tcgetpgrp (open_ret E), Tcsetpgrp (open_ret E) (tcgetpgrp_ret E),
          Tcgetattr (open_ret E), Tcsetattr (open_ret E) (raw_mode P (tcgetattr_out E))]\<rparr>"
  by (simp add: startup_succeeds_def startup_def prim_defs Let_def)

text \<open>A failed startup, by the first call that fails.\<close>

lemma startup_failed:
  assumes "\<not> startup_succeeds E" "cleanupP s = 0"
  shows "startup P E s =
     s\<lparr>global_fd := open_ret E,
       oldttystate := (if 1 \<le> open_ret E \<and> 0 \<le> tcgetpgrp_ret E \<and> 0 \<le> tcsetpgrp_ret E \<and>
                         0 \<le> tcgetattr_ret E then tcgetattr_out E else oldttystate s),
       ttystate := (if 1 \<le> open_ret E \<and> 0 \<le> tcgetpgrp_ret E \<and> 0 \<le> tcsetpgrp_ret E \<and>
                         0 \<le> tcgetattr_ret E then raw_mode P (tcgetattr_out E) else ttystate s),
       status := Exited 0,
       trace := trace s @
         (if open_ret E < 1 then [Open ''/dev/tty'', Perror ''open /dev/tty'']
          else if tcgetpgrp_ret E < 0 then
            [Open ''/dev/tty'', Tcgetpgrp (open_ret E), Perror ''Can't get pgrp\<newline>'']
          else if tcsetpgrp_ret E < 0 then
            [Open ''/dev/tty'', Tcgetpgrp (open_ret E),
             Tcsetpgrp (open_ret E) (tcgetpgrp_ret E), Perror ''Can't set pgrp\<newline>'']
          else if tcgetattr_ret E < 0 then
            [Open ''/dev/tty'', Tcgetpgrp (open_ret E),
             Tcsetpgrp (open_ret E) (tcgetpgrp_ret E), Tcgetattr (open_ret E),
             Perror ''ioctl1 /dev/tty'']
          else
            [Open ''/dev/tty'', Tcgetpgrp (open_ret E),
             Tcsetpgrp (open_ret E) (tcgetpgrp_ret E), Tcgetattr (open_ret E),
             Tcsetattr (open_ret E) (raw_mode P (tcgetattr_out E)),
             Perror ''ioctl2 /dev/tty'']) @
         [Close (open_ret E), Exit 0]\<rparr>"
  using assms
  by (auto simp: startup_succeeds_def startup_def exit_handler_eq exit_calls_def
      cleanup_calls_def prim_defs Let_def)

lemma main_startup_failed:
  "\<not> startup_succeeds E \<Longrightarrow> main P E feed = startup P E (init P)"
  using startup_failed [of E "init P" P]
  by (simp add: main_def Let_def init_def)

lemma main_startup_succeeded:
  "startup_succeeds E \<Longrightarrow>
   main P E feed = read_loop P E feed (install_handlers (startup P E (init P)))"
  by (simp add: main_def Let_def startup_succeeded init_def)

lemma install_handlers_eq:
  "install_handlers s =
     s\<lparr>handlers := (handlers s)(SIGINT \<mapsto> Handler2, SIGQUIT \<mapsto> Handler3,
                                  SIGHUP \<mapsto> Exit_handler, SIGTERM \<mapsto> Exit_handler),
       trace := trace s @
         [Sigaction SIGINT Handler2, Sigaction SIGQUIT Handler3,
          Sigaction SIGHUP Exit_handler, Sigaction SIGTERM Exit_handler,
          Printf ''Use C-c and C-g for async actions, end with C-d\<newline>'' []]\<rparr>"
  by (simp add: install_handlers_def sigaction_def prim_defs Let_def)

subsection \<open>The read loop leaves the global variables alone\<close>

lemma loop_body_globals [simp]:
  "ttystate (loop_body P E r s) = ttystate s"
  "oldttystate (loop_body P E r s) = oldttystate s"
  "cleanupP (loop_body P E r s) = cleanupP s"
  "global_fd (loop_body P E r s) = global_fd s"
  "handlers (loop_body P E r s) = handlers s"
  by (cases r; simp add: exit_handler_eq prim_defs)+

lemma deliver_globals [simp]:
  "ttystate (deliver P E sig s) = ttystate s"
  "oldttystate (deliver P E sig s) = oldttystate s"
  "cleanupP (deliver P E sig s) = cleanupP s"
  "global_fd (deliver P E sig s) = global_fd s"
  "handlers (deliver P E sig s) = handlers s"
  by (simp_all add: deliver_eq split: option.split handler.split)

lemma iteration_globals [simp]:
  "ttystate (iteration P E i s) = ttystate s"
  "oldttystate (iteration P E i s) = oldttystate s"
  "cleanupP (iteration P E i s) = cleanupP s"
  "global_fd (iteration P E i s) = global_fd s"
  "handlers (iteration P E i s) = handlers s"
  by (cases i; simp add: iteration_def Let_def sys_def)+

lemma read_loop_globals [simp]:
  "ttystate (read_loop P E feed s) = ttystate s"
  "oldttystate (read_loop P E feed s) = oldttystate s"
  "cleanupP (read_loop P E feed s) = cleanupP s"
  "global_fd (read_loop P E feed s) = global_fd s"
  "handlers (read_loop P E feed s) = handlers s"
  by (induction feed arbitrary: s; simp add: Let_def)+

subsection \<open>One iteration, by what happens during the read\<close>

lemma iteration_Returns:
  "iteration P E (Returns r) s = loop_body P E r (sys (Read (global_fd s)) s)"
  by (simp add: iteration_def)

lemma iteration_Signal_default:
  "handlers s sig = None \<Longrightarrow>
   iteration P E (Signal sig) s =
     s\<lparr>status := Killed sig, trace := trace s @ [Read (global_fd s)]\<rparr>"
  by (simp add: iteration_def Let_def deliver_def sys_def)

lemma iteration_Signal_handler2:
  "handlers s sig = Some Handler2 \<Longrightarrow> status s = Running \<Longrightarrow>
   iteration P E (Signal sig) s =
     s\<lparr>trace := trace s @ [Read (global_fd s), Write 1 ''Async action on sigint (2)\<newline>'']\<rparr>"
  by (simp add: iteration_def Let_def deliver_def handler2_def sys_def)

lemma iteration_Signal_handler3:
  "handlers s sig = Some Handler3 \<Longrightarrow> status s = Running \<Longrightarrow>
   iteration P E (Signal sig) s =
     s\<lparr>trace := trace s @ [Read (global_fd s), Write 1 ''Async action on sigquit (3)\<newline>'']\<rparr>"
  by (simp add: iteration_def Let_def deliver_def handler3_def sys_def)

lemma iteration_Signal_exit_handler:
  "handlers s sig = Some Exit_handler \<Longrightarrow>
   iteration P E (Signal sig) s =
     s\<lparr>status := Exited 0,
       trace := trace s @ Read (global_fd s) # exit_calls E (signo P sig) s\<rparr>"
  by (simp add: iteration_def Let_def deliver_def exit_handler_eq sys_def)

subsection \<open>The calls to tcsetattr made by the loop\<close>

lemma loop_body_tcsetattr:
  "status s = Running \<Longrightarrow>
   filter is_tcsetattr (trace (loop_body P E r s)) =
     filter is_tcsetattr (trace s) @
     (if status (loop_body P E r s) = Exited 0 \<and> cleanupP s \<noteq> 0
      then [Tcsetattr (global_fd s) (oldttystate s)] else [])"
  by (cases r) (simp_all add: exit_handler_eq exit_calls_def cleanup_calls_def prim_defs)

lemma iteration_tcsetattr:
  assumes "status s = Running"
  shows "filter is_tcsetattr (trace (iteration P E i s)) =
     filter is_tcsetattr (trace s) @
     (if status (iteration P E i s) = Exited 0 \<and> cleanupP s \<noteq> 0
      then [Tcsetattr (global_fd s) (oldttystate s)] else [])"
proof (cases i)
  case (Returns r)
  have "status (sys (Read (global_fd s)) s) = Running"
    using assms by (simp add: sys_def)
  from loop_body_tcsetattr [OF this, of P E r] show ?thesis
    by (simp add: Returns iteration_Returns sys_def)
next
  case (Signal sig)
  show ?thesis
  proof (cases "handlers s sig")
    case None
    then show ?thesis
      by (simp add: Signal iteration_Signal_default)
  next
    case (Some h)
    show ?thesis
    proof (cases h)
      case Handler2
      with Some assms show ?thesis
        by (simp add: Signal iteration_Signal_handler2)
    next
      case Handler3
      with Some assms show ?thesis
        by (simp add: Signal iteration_Signal_handler3)
    next
      case Exit_handler
      with Some show ?thesis
        by (simp add: Signal iteration_Signal_exit_handler exit_calls_def cleanup_calls_def)
    qed
  qed
qed

lemma read_loop_tcsetattr:
  "status s = Running \<Longrightarrow>
   filter is_tcsetattr (trace (read_loop P E feed s)) =
     filter is_tcsetattr (trace s) @
     (if status (read_loop P E feed s) = Exited 0 \<and> cleanupP s \<noteq> 0
      then [Tcsetattr (global_fd s) (oldttystate s)] else [])"
proof (induction feed arbitrary: s)
  case Nil
  then show ?case by simp
next
  case (Cons i rest)
  let ?s1 = "iteration P E i s"
  have step: "filter is_tcsetattr (trace ?s1) =
     filter is_tcsetattr (trace s) @
     (if status ?s1 = Exited 0 \<and> cleanupP s \<noteq> 0
      then [Tcsetattr (global_fd s) (oldttystate s)] else [])"
    using Cons.prems by (rule iteration_tcsetattr)
  show ?case
  proof (cases "status ?s1 = Running")
    case True
    have "read_loop P E (i # rest) s = read_loop P E rest ?s1"
      using True by (simp add: Let_def)
    moreover have "filter is_tcsetattr (trace ?s1) = filter is_tcsetattr (trace s)"
      using step True by simp
    ultimately show ?thesis
      using Cons.IH [OF True] by simp
  next
    case False
    then have "read_loop P E (i # rest) s = ?s1"
      by (simp add: Let_def)
    then show ?thesis
      using step by simp
  qed
qed

subsection \<open>How the loop can end\<close>

lemma loop_body_status:
  "status s = Running \<Longrightarrow>
   status (loop_body P E r s) = Running \<or> status (loop_body P E r s) = Exited 0"
  by (cases r) (simp_all add: exit_handler_eq prim_defs)

lemma iteration_status:
  assumes "status s = Running" "\<forall>sig. handlers s sig \<noteq> None"
  shows "status (iteration P E i s) = Running \<or> status (iteration P E i s) = Exited 0"
proof (cases i)
  case (Returns r)
  have "status (sys (Read (global_fd s)) s) = Running"
    using assms(1) by (simp add: sys_def)
  from loop_body_status [OF this, of P E r] show ?thesis
    by (simp add: Returns iteration_Returns)
next
  case (Signal sig)
  from assms(2) obtain h where h: "handlers s sig = Some h"
    by auto
  show ?thesis
  proof (cases h)
    case Handler2
    with h assms(1) show ?thesis
      by (simp add: Signal iteration_Signal_handler2)
  next
    case Handler3
    with h assms(1) show ?thesis
      by (simp add: Signal iteration_Signal_handler3)
  next
    case Exit_handler
    with h show ?thesis
      by (simp add: Signal iteration_Signal_exit_handler)
  qed
qed

lemma read_loop_status:
  "status s = Running \<Longrightarrow> \<forall>sig. handlers s sig \<noteq> None \<Longrightarrow>
   status (read_loop P E feed s) = Running \<or> status (read_loop P E feed s) = Exited 0"
proof (induction feed arbitrary: s)
  case Nil
  then show ?case by simp
next
  case (Cons i rest)
  show ?case
  proof (cases "status (iteration P E i s) = Running")
    case True
    have "\<forall>sig. handlers (iteration P E i s) sig \<noteq> None"
      using Cons.prems(2) by simp
    from Cons.IH [OF True this] True show ?thesis
      by (simp add: Let_def)
  next
    case False
    then show ?thesis
      using iteration_status [OF Cons.prems, of P E i] by (simp add: Let_def)
  qed
qed

subsection \<open>The loop does not read the trace\<close>

text \<open>
  Running the loop from a state whose trace has some calls in front gives the same run
  with those calls in front: nothing the program does depends on the calls made before.
\<close>

lemma loop_body_prefix:
  "loop_body P E r (s\<lparr>trace := t @ trace s\<rparr>) =
   (loop_body P E r s)\<lparr>trace := t @ trace (loop_body P E r s)\<rparr>"
  by (cases r) (simp_all add: exit_handler_eq prim_defs)

lemma deliver_prefix:
  "deliver P E sig (s\<lparr>trace := t @ trace s\<rparr>) =
   (deliver P E sig s)\<lparr>trace := t @ trace (deliver P E sig s)\<rparr>"
  by (simp add: deliver_eq split: option.split handler.split)

lemma iteration_prefix:
  "iteration P E i (s\<lparr>trace := t @ trace s\<rparr>) =
   (iteration P E i s)\<lparr>trace := t @ trace (iteration P E i s)\<rparr>"
proof -
  have sys_prefix: "sys e (s\<lparr>trace := t @ trace s\<rparr>) = (sys e s)\<lparr>trace := t @ trace (sys e s)\<rparr>" for e
    by (simp add: sys_def)
  show ?thesis
    by (cases i) (simp_all add: iteration_def Let_def sys_prefix loop_body_prefix deliver_prefix)
qed

lemma read_loop_prefix:
  "read_loop P E feed (s\<lparr>trace := t @ trace s\<rparr>) =
   (read_loop P E feed s)\<lparr>trace := t @ trace (read_loop P E feed s)\<rparr>"
proof (induction feed arbitrary: s)
  case Nil
  show ?case by simp
next
  case (Cons i rest)
  show ?case
    by (simp add: Let_def iteration_prefix Cons.IH)
qed

lemma read_loop_from:
  "read_loop P E feed (s\<lparr>trace := t\<rparr>) =
   (read_loop P E feed (s\<lparr>trace := []\<rparr>))
     \<lparr>trace := t @ trace (read_loop P E feed (s\<lparr>trace := []\<rparr>))\<rparr>"
  using read_loop_prefix [where s = "s\<lparr>trace := []\<rparr>" and t = t] by simp

subsection \<open>The concrete terminal\<close>

lemma startup_succeeds_os_ok: "startup_succeeds os_ok"
  by (simp add: startup_succeeds_def os_ok_def)

lemma armed_eq:
  "armed =
     \<lparr>ttystate = raw_mode linux cooked, oldttystate = cooked, cleanupP = 1, global_fd = 3,
      handlers = (\<lambda>_. None)(SIGINT \<mapsto> Handler2, SIGQUIT \<mapsto> Handler3,
                               SIGHUP \<mapsto> Exit_handler, SIGTERM \<mapsto> Exit_handler),
      status = Running,
      trace = [Open ''/dev/tty'', Tcgetpgrp 3, Tcsetpgrp 3 100, Tcgetattr 3,
               Tcsetattr 3 (raw_mode linux cooked),
               Sigaction SIGINT Handler2, Sigaction SIGQUIT Handler3,
               Sigaction SIGHUP Exit_handler, Sigaction SIGTERM Exit_handler,
               Printf ''Use C-c and C-g for async actions, end with C-d\<newline>'' []]\<rparr>"
  by (simp add: armed_def main_startup_succeeded startup_succeeded startup_succeeds_os_ok
      install_handlers_eq)
     (simp add: init_def os_ok_def)

lemma armed_fields:
  "cleanupP armed = 1" "global_fd armed = 3" "oldttystate armed = cooked"
  "status armed = Running" "length (trace armed) = 10"
  "handlers armed SIGINT = Some Handler2" "handlers armed SIGQUIT = Some Handler3"
  "handlers armed SIGHUP = Some Exit_handler" "handlers armed SIGTERM = Some Exit_handler"
  by (simp_all add: armed_eq)

lemma main_os_ok:
  "main linux os_ok feed = read_loop linux os_ok feed armed"
  by (simp add: armed_def main_startup_succeeded startup_succeeds_os_ok)

section \<open>The claims\<close>

subsection \<open>Teardown\<close>




text \<open>
  Claim C2, as the code has it.  With \<^verbatim>\<open>cleanupP\<close> zero, \<^verbatim>\<open>cleanup\<close> does nothing but
  call \<^verbatim>\<open>close(_global_fd)\<close>, and it does so without looking at the descriptor.  So a
  program whose startup fails ends with the flag unset, with no \<^verbatim>\<open>tcsetattr\<close> other
  than the failed attempt to set the working mode (if startup got that far), and with
  exactly one \<^verbatim>\<open>close\<close>, called on whatever \<^verbatim>\<open>open\<close> returned, also when \<^verbatim>\<open>open\<close>
  failed.
\<close>

theorem unarmed_cleanup:
  "(cleanupP s = 0 \<longrightarrow> cleanup E s = sys (Close (global_fd s)) s) \<and>
   (\<not> startup_succeeds E \<longrightarrow>
      cleanupP (main P E feed) = 0 \<and>
      status (main P E feed) = Exited 0 \<and>
      filter is_tcsetattr (trace (main P E feed)) =
        (if 1 \<le> open_ret E \<and> 0 \<le> tcgetpgrp_ret E \<and> 0 \<le> tcsetpgrp_ret E \<and>
            0 \<le> tcgetattr_ret E
         then [Tcsetattr (open_ret E) (raw_mode P (tcgetattr_out E))] else []) \<and>
      filter is_close (trace (main P E feed)) = [Close (open_ret E)])"
proof -
  have a: "cleanup E s = sys (Close (global_fd s)) s" if "cleanupP s = 0"
    using that by (simp add: cleanup_def)
  have b: "cleanupP (main P E feed) = 0 \<and>
      status (main P E feed) = Exited 0 \<and>
      filter is_tcsetattr (trace (main P E feed)) =
        (if 1 \<le> open_ret E \<and> 0 \<le> tcgetpgrp_ret E \<and> 0 \<le> tcsetpgrp_ret E \<and>
            0 \<le> tcgetattr_ret E
         then [Tcsetattr (open_ret E) (raw_mode P (tcgetattr_out E))] else []) \<and>
      filter is_close (trace (main P E feed)) = [Close (open_ret E)]"
    if f: "\<not> startup_succeeds E"
  proof -
    have "cleanupP (init P) = 0" "trace (init P) = []"
      by (simp_all add: init_def)
    then show ?thesis
      using f by (auto simp: main_startup_failed startup_failed)
  qed
  from a b show ?thesis by blast
qed

text \<open>
  When \<^verbatim>\<open>open\<close> fails with -1, the program still calls \<^verbatim>\<open>close\<close>, on -1.
\<close>

theorem unarmed_cleanup_counterexample:
  "filter is_close (trace (main linux (os_ok\<lparr>open_ret := - 1\<rparr>) [])) = [Close (- 1)]"
  by (simp add: main_def startup_def exit_handler_eq exit_calls_def cleanup_calls_def
      prim_defs Let_def init_def os_ok_def)

theorem unarmed_cleanup_witness:
  "cleanupP (init linux) = 0 \<and>
   cleanup (os_ok\<lparr>tcgetattr_ret := - 1\<rparr>) (init linux) = sys (Close 0) (init linux) \<and>
   \<not> startup_succeeds (os_ok\<lparr>tcgetattr_ret := - 1\<rparr>) \<and>
   cleanupP (main linux (os_ok\<lparr>tcgetattr_ret := - 1\<rparr>) []) = 0 \<and>
   filter is_tcsetattr (trace (main linux (os_ok\<lparr>tcgetattr_ret := - 1\<rparr>) [])) = [] \<and>
   filter is_close (trace (main linux (os_ok\<lparr>tcgetattr_ret := - 1\<rparr>) [])) = [Close 3]"
proof -
  have a: "cleanupP (init linux) = 0"
    by (simp add: init_def)
  have b: "\<not> startup_succeeds (os_ok\<lparr>tcgetattr_ret := - 1\<rparr>)"
    by (simp add: startup_succeeds_def os_ok_def)
  have c: "global_fd (init linux) = 0"
    by (simp add: init_def)
  show ?thesis
    using a b c unarmed_cleanup [of "init linux" "os_ok\<lparr>tcgetattr_ret := - 1\<rparr>" linux "[]"]
    by (simp add: os_ok_def)
qed

text \<open>
  Claim C6, as the code has it.  \<^verbatim>\<open>cleanup\<close> changes no variable of the program, and the
  only calls it makes on the terminal are the restoring \<^verbatim>\<open>tcsetattr\<close> (when armed) and
  \<^verbatim>\<open>close\<close>.  But it also writes through \<^verbatim>\<open>stdio\<close>: a \<^verbatim>\<open>printf\<close> before the restore when
  armed and a \<^verbatim>\<open>perror\<close> when the restore fails; every call of \<^verbatim>\<open>cleanup\<close> is of one of
  these two kinds.  When a signal bound to \<^verbatim>\<open>exit_handler\<close> is delivered, these calls are
  followed by a \<^verbatim>\<open>printf\<close> of the signal number and by \<^verbatim>\<open>exit(0)\<close>.
\<close>

theorem cleanup_in_signal_handler:
  "cleanup E s = s\<lparr>trace := trace s @ cleanup_calls E s\<rparr> \<and>
   filter is_stdio (cleanup_calls E s) =
     (if cleanupP s \<noteq> 0 then
        Printf ''Resettung terminal\<newline>'' [] #
        (if restore_ret E < 0 then [Perror ''ioctl reset /dev/tty''] else [])
      else []) \<and>
   filter restore_or_close (cleanup_calls E s) =
     (if cleanupP s \<noteq> 0 then [Tcsetattr (global_fd s) (oldttystate s)] else []) @
     [Close (global_fd s)] \<and>
   length (filter is_stdio (cleanup_calls E s)) +
     length (filter restore_or_close (cleanup_calls E s)) = length (cleanup_calls E s) \<and>
   (handlers s sig = Some Exit_handler \<longrightarrow>
      deliver P E sig s =
        s\<lparr>status := Exited 0,
          trace := trace s @ cleanup_calls E s @
            (if signo P sig \<noteq> 0 then [Printf ''Exiting on signal %d\<newline>'' [signo P sig]]
             else []) @ [Exit 0]\<rparr>)"
  by (simp add: cleanup_eq cleanup_calls_def deliver_eq exit_calls_def)

text \<open>
  On the concrete terminal, the calls of \<^verbatim>\<open>cleanup\<close> are not all \<^verbatim>\<open>tcsetattr\<close> or
  \<^verbatim>\<open>close\<close>: the first is a \<^verbatim>\<open>printf\<close>.
\<close>

theorem cleanup_in_signal_handler_counterexample:
  "\<not> list_all restore_or_close (new_calls armed (cleanup os_ok armed)) \<and>
   filter is_stdio (new_calls armed (cleanup os_ok armed)) =
     [Printf ''Resettung terminal\<newline>'' []]"
  by (simp add: cleanup_eq cleanup_calls_def armed_fields os_ok_def)

theorem cleanup_in_signal_handler_witness:
  "handlers armed SIGTERM = Some Exit_handler \<and>
   deliver linux os_ok SIGTERM armed =
     armed\<lparr>status := Exited 0,
       trace := trace armed @
         [Printf ''Resettung terminal\<newline>'' [], Tcsetattr 3 cooked, Close 3,
          Printf ''Exiting on signal %d\<newline>'' [15], Exit 0]\<rparr>"
  using cleanup_in_signal_handler [of os_ok armed SIGTERM linux]
  by (simp add: armed_fields cleanup_calls_def) (simp add: os_ok_def linux_def)

subsection \<open>Startup\<close>

text \<open>
  Claim C3, as the code has it.  A startup that gets through makes its calls in this
  order: \<^verbatim>\<open>open\<close>, \<^verbatim>\<open>tcgetpgrp\<close>, \<^verbatim>\<open>tcsetpgrp\<close> with the group just read, \<^verbatim>\<open>tcgetattr\<close>
  (which captures the original mode), \<^verbatim>\<open>tcsetattr\<close> with the working mode computed from
  it; then it sets \<^verbatim>\<open>cleanupP\<close>.  The original mode is captured after the foreground
  process group has been re-asserted, not before.
\<close>

theorem startup_order:
  "startup_succeeds E \<Longrightarrow>
   startup P E (init P) =
     (init P)\<lparr>ttystate := raw_mode P (tcgetattr_out E), oldttystate := tcgetattr_out E,
       cleanupP := 1, global_fd := open_ret E,
       trace :=
         [Open ''/dev/tty'', Tcgetpgrp (open_ret E), Tcsetpgrp (open_ret E) (tcgetpgrp_ret E),
          Tcgetattr (open_ret E), Tcsetattr (open_ret E) (raw_mode P (tcgetattr_out E))]\<rparr>"
  using startup_succeeded [of E P "init P"] by (simp add: init_def)

text \<open>
  On the concrete terminal the calls are not in the order open, capture, process group,
  apply: the second and third calls are \<^verbatim>\<open>tcgetpgrp\<close> and \<^verbatim>\<open>tcsetpgrp\<close>, and
  \<^verbatim>\<open>tcgetattr\<close> is the fourth.
\<close>

theorem startup_order_counterexample:
  "trace (startup linux os_ok (init linux)) \<noteq>
     [Open ''/dev/tty'', Tcgetattr 3, Tcgetpgrp 3, Tcsetpgrp 3 100,
      Tcsetattr 3 (raw_mode linux cooked)] \<and>
   trace (startup linux os_ok (init linux)) ! 1 = Tcgetpgrp 3 \<and>
   trace (startup linux os_ok (init linux)) ! 2 = Tcsetpgrp 3 100 \<and>
   trace (startup linux os_ok (init linux)) ! 3 = Tcgetattr 3"
  by (simp add: startup_succeeded startup_succeeds_os_ok)
     (simp add: init_def os_ok_def)

theorem startup_order_witness:
  "startup_succeeds os_ok \<and>
   trace (startup linux os_ok (init linux)) =
     [Open ''/dev/tty'', Tcgetpgrp 3, Tcsetpgrp 3 100, Tcgetattr 3,
      Tcsetattr 3 (raw_mode linux cooked)] \<and>
   cleanupP (startup linux os_ok (init linux)) = 1"
  using startup_order [OF startup_succeeds_os_ok, of linux] startup_succeeds_os_ok
  by (simp add: os_ok_def)

text \<open>
  Claim C4.  Once startup has got through, \<^verbatim>\<open>oldttystate\<close> holds the attributes
  \<^verbatim>\<open>tcgetattr\<close> delivered, whatever the terminal sends afterwards.  The program calls
  \<^verbatim>\<open>tcsetattr\<close> once with the working mode and, when it exits, exactly once more, with
  exactly the attributes it captured; it makes no other \<^verbatim>\<open>tcsetattr\<close> call.  A program
  that has not exited is still waiting in \<^verbatim>\<open>read\<close>.
\<close>

theorem restoration_fidelity:
  "startup_succeeds E \<Longrightarrow>
   oldttystate (main P E feed) = tcgetattr_out E \<and>
   filter is_tcsetattr (trace (main P E feed)) =
     Tcsetattr (open_ret E) (raw_mode P (tcgetattr_out E)) #
     (if status (main P E feed) = Exited 0
      then [Tcsetattr (open_ret E) (tcgetattr_out E)] else []) \<and>
   (status (main P E feed) = Running \<or> status (main P E feed) = Exited 0)"
proof -
  assume ok: "startup_succeeds E"
  let ?s = "install_handlers (startup P E (init P))"
  have m: "main P E feed = read_loop P E feed ?s"
    using ok by (rule main_startup_succeeded)
  have run: "status ?s = Running"
    using ok by (simp add: startup_succeeded install_handlers_eq init_def)
  have g: "oldttystate ?s = tcgetattr_out E" "global_fd ?s = open_ret E" "cleanupP ?s \<noteq> 0"
    "filter is_tcsetattr (trace ?s) = [Tcsetattr (open_ret E) (raw_mode P (tcgetattr_out E))]"
    using ok by (simp_all add: startup_succeeded install_handlers_eq init_def)
  have h: "\<forall>sig. handlers ?s sig \<noteq> None"
  proof
    fix sig
    show "handlers ?s sig \<noteq> None"
      by (cases sig) (simp_all add: install_handlers_eq)
  qed
  have "filter is_tcsetattr (trace (read_loop P E feed ?s)) =
     filter is_tcsetattr (trace ?s) @
     (if status (read_loop P E feed ?s) = Exited 0 \<and> cleanupP ?s \<noteq> 0
      then [Tcsetattr (global_fd ?s) (oldttystate ?s)] else [])"
    using run by (rule read_loop_tcsetattr)
  moreover have "status (read_loop P E feed ?s) = Running \<or>
      status (read_loop P E feed ?s) = Exited 0"
    using run h by (rule read_loop_status)
  ultimately show ?thesis
    unfolding m using g by simp
qed

theorem restoration_fidelity_witness:
  "startup_succeeds os_ok \<and>
   oldttystate (main linux os_ok [Returns (Read_byte 97), Returns Read_zero]) = cooked \<and>
   status (main linux os_ok [Returns (Read_byte 97), Returns Read_zero]) = Exited 0 \<and>
   filter is_tcsetattr (trace (main linux os_ok [Returns (Read_byte 97), Returns Read_zero])) =
     [Tcsetattr 3 (raw_mode linux cooked), Tcsetattr 3 cooked]"
proof -
  have st: "status (main linux os_ok [Returns (Read_byte 97), Returns Read_zero]) = Exited 0"
    by (simp add: main_os_ok iteration_Returns char_to_int_small CEOF_val exit_handler_eq
        prim_defs Let_def armed_fields)
  show ?thesis
    using restoration_fidelity [OF startup_succeeds_os_ok, of linux
        "[Returns (Read_byte 97), Returns Read_zero]"] st startup_succeeds_os_ok
    by (simp add: os_ok_def)
qed

text \<open>
  Claim C5.  The working mode is the original mode with the bits of \<^verbatim>\<open>ICANON\<close> and of
  \<^verbatim>\<open>ECHO\<close> cleared in \<^verbatim>\<open>c_lflag\<close>, all other bits of \<^verbatim>\<open>c_lflag\<close> and the other three flag
  words as they were, and entry \<^verbatim>\<open>VQUIT\<close> of \<^verbatim>\<open>c_cc\<close> set to 7 (control-G), all other
  entries as they were.  Startup applies it with its one \<^verbatim>\<open>tcsetattr\<close> call, and
  \<^verbatim>\<open>cleanupP\<close> becomes 1 exactly when that call succeeds.
\<close>

theorem working_mode_frame:
  "VQUIT P < length (c_cc M) \<Longrightarrow>
   c_lflag (raw_mode P M) AND ICANON P = 0 \<and>
   c_lflag (raw_mode P M) AND ECHO P = 0 \<and>
   c_lflag (raw_mode P M) AND NOT (ICANON P OR ECHO P) =
     c_lflag M AND NOT (ICANON P OR ECHO P) \<and>
   c_iflag (raw_mode P M) = c_iflag M \<and>
   c_oflag (raw_mode P M) = c_oflag M \<and>
   c_cflag (raw_mode P M) = c_cflag M \<and>
   length (c_cc (raw_mode P M)) = length (c_cc M) \<and>
   c_cc (raw_mode P M) ! VQUIT P = 7 \<and>
   (\<forall>i. i \<noteq> VQUIT P \<longrightarrow> c_cc (raw_mode P M) ! i = c_cc M ! i) \<and>
   (1 \<le> open_ret E \<and> 0 \<le> tcgetpgrp_ret E \<and> 0 \<le> tcsetpgrp_ret E \<and>
    0 \<le> tcgetattr_ret E \<and> tcgetattr_out E = M \<longrightarrow>
      ttystate (startup P E (init P)) = raw_mode P M \<and>
      filter is_tcsetattr (trace (startup P E (init P))) = [Tcsetattr (open_ret E) (raw_mode P M)] \<and>
      cleanupP (startup P E (init P)) = (if 0 \<le> tcsetattr_ret E then 1 else 0))"
proof -
  assume q: "VQUIT P < length (c_cc M)"
  have l1: "c_lflag (raw_mode P M) AND ICANON P = 0"
    by (auto simp: raw_mode_fields bit_eq_iff bit_simps)
  have l2: "c_lflag (raw_mode P M) AND ECHO P = 0"
    by (auto simp: raw_mode_fields bit_eq_iff bit_simps)
  have l3: "c_lflag (raw_mode P M) AND NOT (ICANON P OR ECHO P) =
     c_lflag M AND NOT (ICANON P OR ECHO P)"
    by (auto simp: raw_mode_fields bit_eq_iff bit_simps)
  have cc: "length (c_cc (raw_mode P M)) = length (c_cc M)"
    "c_cc (raw_mode P M) ! VQUIT P = 7"
    "\<forall>i. i \<noteq> VQUIT P \<longrightarrow> c_cc (raw_mode P M) ! i = c_cc M ! i"
    using q by (simp_all add: raw_mode_fields)
  have st: "ttystate (startup P E (init P)) = raw_mode P M \<and>
      filter is_tcsetattr (trace (startup P E (init P))) = [Tcsetattr (open_ret E) (raw_mode P M)] \<and>
      cleanupP (startup P E (init P)) = (if 0 \<le> tcsetattr_ret E then 1 else 0)"
    if h: "1 \<le> open_ret E \<and> 0 \<le> tcgetpgrp_ret E \<and> 0 \<le> tcsetpgrp_ret E \<and>
    0 \<le> tcgetattr_ret E \<and> tcgetattr_out E = M"
  proof (cases "0 \<le> tcsetattr_ret E")
    case True
    with h have "startup_succeeds E" by (simp add: startup_succeeds_def)
    then show ?thesis
      using True h by (simp add: startup_succeeded init_def)
  next
    case False
    then have "\<not> startup_succeeds E" by (simp add: startup_succeeds_def)
    moreover have "cleanupP (init P) = 0" "trace (init P) = []"
      by (simp_all add: init_def)
    ultimately show ?thesis
      using False h by (simp add: startup_failed)
  qed
  from l1 l2 l3 cc st show ?thesis
    by (simp add: raw_mode_fields)
qed

theorem working_mode_frame_witness:
  "VQUIT linux < length (c_cc cooked) \<and>
   c_lflag cooked AND ICANON linux = 2 \<and> c_lflag cooked AND ECHO linux = 8 \<and>
   c_cc cooked ! VQUIT linux = 28 \<and>
   c_lflag (raw_mode linux cooked) AND ICANON linux = 0 \<and>
   c_lflag (raw_mode linux cooked) AND ECHO linux = 0 \<and>
   c_cc (raw_mode linux cooked) ! VQUIT linux = 7 \<and>
   c_cc (raw_mode linux cooked) ! 4 = c_cc cooked ! 4 \<and>
   ttystate (startup linux os_ok (init linux)) = raw_mode linux cooked \<and>
   cleanupP (startup linux os_ok (init linux)) = 1"
proof -
  have q: "VQUIT linux < length (c_cc cooked)"
    by (simp add: linux_def cooked_def)
  have o: "1 \<le> open_ret os_ok \<and> 0 \<le> tcgetpgrp_ret os_ok \<and> 0 \<le> tcsetpgrp_ret os_ok \<and>
    0 \<le> tcgetattr_ret os_ok \<and> tcgetattr_out os_ok = cooked" "0 \<le> tcsetattr_ret os_ok"
    by (simp_all add: os_ok_def)
  have v: "4 \<noteq> VQUIT linux"
    by (simp add: linux_def)
  have c: "c_lflag cooked AND ICANON linux = 2" "c_lflag cooked AND ECHO linux = 8"
    "c_cc cooked ! VQUIT linux = 28"
    by (simp_all add: linux_def cooked_def)
  show ?thesis
    using working_mode_frame [OF q, of os_ok] q o v c by simp
qed

subsection \<open>The read loop\<close>

text \<open>
  Claim C7.  On the inputs byte \<^verbatim>\<open>a\<close>, a \<^verbatim>\<open>read\<close> that fails with \<^verbatim>\<open>EINTR\<close>, byte \<^verbatim>\<open>b\<close>,
  byte control-D, the loop makes exactly these calls: a \<^verbatim>\<open>read\<close> and the echo
  \<^verbatim>\<open>printf\<close> with 97 for both the character and its number; a \<^verbatim>\<open>read\<close> and nothing
  else for the interruption; a \<^verbatim>\<open>read\<close> and the echo for 98; a \<^verbatim>\<open>read\<close>, the end of
  input message and then the calls of \<^verbatim>\<open>cleanup\<close> and one \<^verbatim>\<open>exit(0)\<close>.
\<close>

theorem read_loop_scenario:
  "status s = Running \<Longrightarrow>
   read_loop P E
     [Returns (Read_byte (of_char CHR ''a'')), Returns (Read_error (EINTR P)),
      Returns (Read_byte (of_char CHR ''b'')), Returns (Read_byte (word_of_int CEOF))] s =
   s\<lparr>status := Exited 0,
     trace := trace s @
       [Read (global_fd s), Printf ''You typed: '%c' (0x%X)\<newline>'' [97, 97],
        Read (global_fd s),
        Read (global_fd s), Printf ''You typed: '%c' (0x%X)\<newline>'' [98, 98],
        Read (global_fd s),
        Printf ''Exiting on stdin EOF (hopefully only in noncannon mode)\<newline>'' []] @
       cleanup_calls E s @ [Exit 0]\<rparr>"
  by (simp add: iteration_Returns char_to_int_small char_to_int_CEOF CEOF_val
      exit_handler_eq exit_calls_def prim_defs Let_def)

theorem read_loop_scenario_witness:
  "status armed = Running \<and>
   new_calls armed (read_loop linux os_ok
     [Returns (Read_byte (of_char CHR ''a'')), Returns (Read_error (EINTR linux)),
      Returns (Read_byte (of_char CHR ''b'')), Returns (Read_byte (word_of_int CEOF))] armed) =
     [Read 3, Printf ''You typed: '%c' (0x%X)\<newline>'' [97, 97],
      Read 3,
      Read 3, Printf ''You typed: '%c' (0x%X)\<newline>'' [98, 98],
      Read 3,
      Printf ''Exiting on stdin EOF (hopefully only in noncannon mode)\<newline>'' [],
      Printf ''Resettung terminal\<newline>'' [], Tcsetattr 3 cooked, Close 3, Exit 0]"
  using read_loop_scenario [of armed linux os_ok]
  by (simp add: armed_fields cleanup_calls_def new_calls_def) (simp add: os_ok_def)

text \<open>
  Claim C8.  When \<^verbatim>\<open>SIGINT\<close> or \<^verbatim>\<open>SIGQUIT\<close> arrives while the program, with the
  handlers that \<^verbatim>\<open>main\<close> installs, waits in \<^verbatim>\<open>read\<close>, the handler does nothing but one
  \<^verbatim>\<open>write\<close> of its fixed message to descriptor 1 and the process keeps running.  The
  run that follows is the run there would have been without the signal: the same final
  variables and status, and the same calls, after the interrupted \<^verbatim>\<open>read\<close> and the
  handler's \<^verbatim>\<open>write\<close>.
\<close>

theorem interrupt_transparency:
  assumes "status s = Running"
    and "handlers s SIGINT = Some Handler2"
    and "handlers s SIGQUIT = Some Handler3"
    and "sig = SIGINT \<or> sig = SIGQUIT"
  shows "deliver P E sig s =
      sys (Write 1 (if sig = SIGINT then ''Async action on sigint (2)\<newline>''
                    else ''Async action on sigquit (3)\<newline>'')) s \<and>
    status (deliver P E sig s) = Running \<and>
    (read_loop P E (Signal sig # rest) s)\<lparr>trace := []\<rparr> =
      (read_loop P E rest s)\<lparr>trace := []\<rparr> \<and>
    new_calls s (read_loop P E (Signal sig # rest) s) =
      [Read (global_fd s),
       Write 1 (if sig = SIGINT then ''Async action on sigint (2)\<newline>''
                else ''Async action on sigquit (3)\<newline>'')] @
      new_calls s (read_loop P E rest s)"
proof -
  let ?msg = "if sig = SIGINT then ''Async action on sigint (2)\<newline>''
              else ''Async action on sigquit (3)\<newline>''"
  let ?r0 = "read_loop P E rest (s\<lparr>trace := []\<rparr>)"
  have d: "deliver P E sig s = sys (Write 1 ?msg) s"
    using assms(2-4) by (auto simp: deliver_def handler2_def handler3_def)
  have it: "iteration P E (Signal sig) s =
      s\<lparr>trace := trace s @ [Read (global_fd s), Write 1 ?msg]\<rparr>"
    using assms by (auto simp: iteration_Signal_handler2 iteration_Signal_handler3)
  have a: "read_loop P E (Signal sig # rest) s =
      ?r0\<lparr>trace := (trace s @ [Read (global_fd s), Write 1 ?msg]) @ trace ?r0\<rparr>"
  proof -
    have "read_loop P E (Signal sig # rest) s =
        read_loop P E rest (s\<lparr>trace := trace s @ [Read (global_fd s), Write 1 ?msg]\<rparr>)"
      using assms(1) by (simp add: it Let_def)
    also have "\<dots> = ?r0\<lparr>trace := (trace s @ [Read (global_fd s), Write 1 ?msg]) @ trace ?r0\<rparr>"
      by (rule read_loop_from)
    finally show ?thesis .
  qed
  have b: "read_loop P E rest s = ?r0\<lparr>trace := trace s @ trace ?r0\<rparr>"
    using read_loop_from [where s = s and t = "trace s"] by simp
  show ?thesis
    unfolding a b d using assms(1) by (simp add: new_calls_def sys_def)
qed

theorem interrupt_transparency_witness:
  "status armed = Running \<and> handlers armed SIGINT = Some Handler2 \<and>
   handlers armed SIGQUIT = Some Handler3 \<and>
   deliver linux os_ok SIGINT armed = sys (Write 1 ''Async action on sigint (2)\<newline>'') armed \<and>
   new_calls armed (read_loop linux os_ok [Signal SIGINT, Returns (Read_byte 97)] armed) =
     [Read 3, Write 1 ''Async action on sigint (2)\<newline>'',
      Read 3, Printf ''You typed: '%c' (0x%X)\<newline>'' [97, 97]] \<and>
   new_calls armed (read_loop linux os_ok [Returns (Read_byte 97)] armed) =
     [Read 3, Printf ''You typed: '%c' (0x%X)\<newline>'' [97, 97]]"
proof -
  have n: "new_calls armed (read_loop linux os_ok [Returns (Read_byte 97)] armed) =
     [Read 3, Printf ''You typed: '%c' (0x%X)\<newline>'' [97, 97]]"
    by (simp add: iteration_Returns char_to_int_small CEOF_val prim_defs Let_def armed_fields
        new_calls_def)
  show ?thesis
    using interrupt_transparency [of armed SIGINT linux os_ok "[Returns (Read_byte 97)]"] n
    by (simp add: armed_fields)
qed

text \<open>
  Claim C9.  A \<^verbatim>\<open>read\<close> that returns 0 and a \<^verbatim>\<open>read\<close> that delivers the byte control-D
  both end in \<^verbatim>\<open>exit_handler(0)\<close>, after a message that differs in its wording only: the
  process exits with code 0, and after the \<^verbatim>\<open>read\<close> and the message the calls are the
  same.  Whatever the operating system answers and the terminal sends, \<^verbatim>\<open>main\<close> is
  either still waiting in \<^verbatim>\<open>read\<close> or has exited with code 0.
\<close>

theorem end_of_input_equivalence:
  "read_loop P E (Returns Read_zero # rest) s =
     exit_handler E 0
       (printf ''Exiting on stdin EOF (should happen only in cannon mode\<newline>'' []
          (sys (Read (global_fd s)) s)) \<and>
   read_loop P E (Returns (Read_byte (word_of_int CEOF)) # rest') s =
     exit_handler E 0
       (printf ''Exiting on stdin EOF (hopefully only in noncannon mode)\<newline>'' []
          (sys (Read (global_fd s)) s)) \<and>
   status (read_loop P E (Returns Read_zero # rest) s) = Exited 0 \<and>
   status (read_loop P E (Returns (Read_byte (word_of_int CEOF)) # rest') s) = Exited 0 \<and>
   drop 2 (new_calls s (read_loop P E (Returns Read_zero # rest) s)) = exit_calls E 0 s \<and>
   drop 2 (new_calls s (read_loop P E (Returns (Read_byte (word_of_int CEOF)) # rest') s)) =
     exit_calls E 0 s \<and>
   (status (main P E feed) = Running \<or> status (main P E feed) = Exited 0)"
proof -
  have z: "read_loop P E (Returns Read_zero # rest) s =
     exit_handler E 0
       (printf ''Exiting on stdin EOF (should happen only in cannon mode\<newline>'' []
          (sys (Read (global_fd s)) s))"
    by (simp add: iteration_Returns exit_handler_eq Let_def)
  have d: "read_loop P E (Returns (Read_byte (word_of_int CEOF)) # rest') s =
     exit_handler E 0
       (printf ''Exiting on stdin EOF (hopefully only in noncannon mode)\<newline>'' []
          (sys (Read (global_fd s)) s))"
    by (simp add: iteration_Returns char_to_int_CEOF exit_handler_eq Let_def)
  have m: "status (main P E feed) = Running \<or> status (main P E feed) = Exited 0"
  proof (cases "startup_succeeds E")
    case True
    let ?s = "install_handlers (startup P E (init P))"
    have "status ?s = Running"
      using True by (simp add: startup_succeeded install_handlers_eq init_def)
    moreover have "\<forall>sig. handlers ?s sig \<noteq> None"
    proof
      fix sig
      show "handlers ?s sig \<noteq> None"
        by (cases sig) (simp_all add: install_handlers_eq)
    qed
    ultimately show ?thesis
      using read_loop_status [of ?s P E feed] True by (simp add: main_startup_succeeded)
  next
    case False
    moreover have "cleanupP (init P) = 0"
      by (simp add: init_def)
    ultimately show ?thesis
      by (simp add: main_startup_failed startup_failed)
  qed
  show ?thesis
    unfolding z d using m
    by (simp add: exit_handler_eq prim_defs new_calls_def)
qed

theorem end_of_input_equivalence_witness:
  "status (read_loop linux os_ok [Returns Read_zero] armed) = Exited 0 \<and>
   status (read_loop linux os_ok [Returns (Read_byte 4)] armed) = Exited 0 \<and>
   drop 2 (new_calls armed (read_loop linux os_ok [Returns Read_zero] armed)) =
     [Printf ''Resettung terminal\<newline>'' [], Tcsetattr 3 cooked, Close 3, Exit 0] \<and>
   drop 2 (new_calls armed (read_loop linux os_ok [Returns (Read_byte 4)] armed)) =
     [Printf ''Resettung terminal\<newline>'' [], Tcsetattr 3 cooked, Close 3, Exit 0] \<and>
   status (main linux os_ok [Returns (Read_byte 4)]) = Exited 0"
proof -
  have c: "word_of_int CEOF = (4 :: 8 word)"
    by (simp add: CEOF_val)
  have e: "exit_calls os_ok 0 armed =
     [Printf ''Resettung terminal\<newline>'' [], Tcsetattr 3 cooked, Close 3, Exit 0]"
    by (simp add: exit_calls_def cleanup_calls_def armed_fields) (simp add: os_ok_def)
  note t = end_of_input_equivalence
      [of linux os_ok "[]" armed "[]" "[Returns (Read_byte 4)]", unfolded c e main_os_ok]
  from t show ?thesis
    unfolding main_os_ok by blast
qed

text \<open>
  Claim C10.  When \<^verbatim>\<open>open\<close> succeeds and returns descriptor 0, the test
  \<^verbatim>\<open>(_global_fd = open(...)) < 1\<close> takes it for a failure: the program reports
  \<^verbatim>\<open>open /dev/tty\<close> through \<^verbatim>\<open>perror\<close>, closes descriptor 0 and exits with code 0,
  whatever the terminal would have delivered.  No other call is made.
\<close>

theorem open_descriptor_zero_is_failure:
  "open_ret E = 0 \<Longrightarrow>
   main P E feed =
     (init P)\<lparr>global_fd := 0, status := Exited 0,
       trace := [Open ''/dev/tty'', Perror ''open /dev/tty'', Close 0, Exit 0]\<rparr>"
proof -
  assume z: "open_ret E = 0"
  then have "\<not> startup_succeeds E"
    by (simp add: startup_succeeds_def)
  then show ?thesis
    using startup_failed [of E "init P" P] z
    by (simp add: main_startup_failed init_def)
qed

theorem open_descriptor_zero_is_failure_witness:
  "open_ret (os_ok\<lparr>open_ret := 0\<rparr>) = 0 \<and>
   trace (main linux (os_ok\<lparr>open_ret := 0\<rparr>) [Returns (Read_byte 97)]) =
     [Open ''/dev/tty'', Perror ''open /dev/tty'', Close 0, Exit 0] \<and>
   status (main linux (os_ok\<lparr>open_ret := 0\<rparr>) [Returns (Read_byte 97)]) = Exited 0"
  using open_descriptor_zero_is_failure
    [of "os_ok\<lparr>open_ret := 0\<rparr>" linux "[Returns (Read_byte 97)]"]
  by simp

end
